theory Spec2Isabelle
  imports Main "HOL-Library.Word"
begin

unbundle bit_operations_syntax

section \<open>Bytes and Python integers\<close>

type_synonym byte = "8 word"

text \<open>
  \<open>int.from_bytes(b, byteorder='big', signed=False)\<close>; on the empty byte string it is 0.
\<close>

definition from_bytes_unsigned :: "byte list \<Rightarrow> int" where
  "from_bytes_unsigned bs = foldl (\<lambda>a b. a * 256 + uint b) 0 bs"

definition int_from_bytes :: "bool \<Rightarrow> byte list \<Rightarrow> int" where
  "int_from_bytes sg bs =
     (let u = from_bytes_unsigned bs in
      if sg \<and> bs \<noteq> [] \<and> u \<ge> 2 ^ (8 * length bs - 1) then u - 2 ^ (8 * length bs) else u)"

fun be_bytes :: "nat \<Rightarrow> int \<Rightarrow> byte list" where
  "be_bytes 0 v = []"
| "be_bytes (Suc n) v = be_bytes n (v div 256) @ [word_of_int v]"

section \<open>Exceptions\<close>

text \<open>
  Every exception the data-fill code can raise is a value. A \<open>RuntimeError\<close> carries which
  of the messages of the source it was built with; \<open>DataTypeFailed\<close> is the message
  \<open>"Data type {}: {}"\<close> that a composite wraps a failing child in.
\<close>

datatype (plugins only: code) td_full_type =
    TD_Void | TD_NumInt8 | TD_NumInt16 | TD_NumInt32 | TD_NumInt64
  | TD_NumUInt8 | TD_NumUInt16 | TD_NumUInt32 | TD_NumUInt64
  | TD_NumFloat32 | TD_NumFloat64 | TD_NumFloatExt
  | TD_NumComplex64 | TD_NumComplex128 | TD_NumComplexExt
  | TD_UnitUInt8 | TD_UnitUInt16 | TD_UnitUInt32
  | TD_UnitFloat32 | TD_UnitFloat64 | TD_UnitFloatExt
  | TD_UnitComplex64 | TD_UnitComplex128 | TD_UnitComplexExt
  | TD_BooleanU16 | TD_Boolean | TD_String | TD_Path | TD_Picture
  | TD_CString | TD_PasString | TD_Tag | TD_SubString
  | TD_Array | TD_ArrayDataPtr | TD_SubArray | TD_ArrayInterfc
  | TD_Cluster | TD_LVVariant | TD_MeasureData | TD_ComplexFixedPt | TD_FixedPoint
  | TD_Block | TD_TypeBlock | TD_VoidBlock | TD_AlignedBlock | TD_RepeatedBlock
  | TD_AlignmntMarker | TD_Refnum | TD_Ptr | TD_PtrTo | TD_ExtData
  | TD_Function | TD_TypeDef | TD_PolyVI
  | TD_Other nat

datatype error =
    RuntimeError runtime_msg
  | NotImplementedError
  | NameError string
  | UnboundLocalError string
  | TypeError
  | AttributeError
  | OverflowError
  | ValueError
  | IndexError
and runtime_msg =
    CannotBeLinked
  | UnexpectedType
  | UsedBeforeInitialized
  | ClaimsToContain int int
  | DataTypeFailed td_full_type error
  | MeasureDataFlavorFailed td_full_type error
  | UnrecognizedPathClass

text \<open>
  \<open>int(v).to_bytes(n, byteorder='big', signed=sg)\<close>: \<open>OverflowError\<close> when \<open>v\<close> does not
  fit, otherwise the \<open>n\<close> big-endian bytes of \<open>v\<close> (two's complement when signed).
\<close>

definition int_to_bytes :: "nat \<Rightarrow> bool \<Rightarrow> int \<Rightarrow> error + byte list" where
  "int_to_bytes n sg v =
     (if sg then
        (if (if n = 0 then v = 0 else - (2 ^ (8 * n - 1)) \<le> v \<and> v < 2 ^ (8 * n - 1))
         then Inr (be_bytes n v) else Inl OverflowError)
      else
        (if 0 \<le> v \<and> v < 2 ^ (8 * n) then Inr (be_bytes n v) else Inl OverflowError))"

section \<open>The byte source\<close>

text \<open>
  \<open>bldata\<close> is a \<open>BytesIO\<close>: the whole buffer and the current position. \<open>read(n)\<close> returns
  the at most \<open>n\<close> bytes that are left and advances by what it returned; it never fails.
\<close>

record reader =
  data :: "byte list"
  pos :: nat

definition read :: "nat \<Rightarrow> reader \<Rightarrow> byte list \<times> reader" where
  "read n rd = (let bs = take n (drop (pos rd) (data rd)) in (bs, rd\<lparr>pos := pos rd + length bs\<rparr>))"

definition tell :: "reader \<Rightarrow> nat" where
  "tell rd = pos rd"

definition read_uint :: "nat \<Rightarrow> reader \<Rightarrow> int \<times> reader" where
  "read_uint n rd = (let (bs, rd') = read n rd in (int_from_bytes False bs, rd'))"

text \<open>A 4-byte unsigned length followed by that many bytes.\<close>

definition read_lstr :: "reader \<Rightarrow> byte list \<times> reader" where
  "read_lstr rd = (let (strlen, rd1) = read_uint 4 rd in read (nat strlen) rd1)"

section \<open>Type descriptors\<close>

datatype refnum_type =
    IVIRef | VisaRef | Imaq | UsrDefTagFlt | UsrDefndTag | UsrDefined | UDClassInst
  | OtherRefnum nat

datatype md_flavor =
    OldFloat64Waveform | Int16Waveform | Float64Waveform | Float32Waveform | TimeStamp
  | Digitaldata | DigitalWaveform | Dynamicdata | FloatExtWaveform
  | UInt8Waveform | UInt16Waveform | UInt32Waveform | Int8Waveform | Int32Waveform
  | Complex64Waveform | Complex128Waveform | ComplexExtWaveform
  | Int64Waveform | UInt64Waveform
  | OtherFlavor nat

text \<open>
  A type descriptor as the data-fill code reads it: \<open>fullType()\<close>, \<open>refType()\<close>,
  \<open>dtFlavor()\<close>, the clients (each the index \<open>client.index\<close> and the descriptor it resolves
  to), \<open>dimensions\<close>, \<open>numRepeats\<close>, \<open>blkSize\<close> and \<open>allocOv\<close>. The data fill borrows
  the descriptor and never changes it.
\<close>

datatype td = TD
  (fullType: td_full_type)
  (refType: refnum_type)
  (dtFlavor: md_flavor)
  (clients: "(int \<times> td) list")
  (dimensions: "int list")
  (numRepeats: nat)
  (blkSize: nat)
  (allocOv: bool)

text \<open>
  Modelled from the spec: \<open>clientsEnumerate\<close> belongs to LVdatatype, which is not among the
  sources. It yields, for each client in order, its position from 0, its index and the
  descriptor it resolves to (the fourth component, the client flags, is never read here).
\<close>

definition clientsEnumerate :: "td \<Rightarrow> (int \<times> int \<times> td) list" where
  "clientsEnumerate t = map (\<lambda>(i, (td_idx, sub_td)). (int i, td_idx, sub_td)) (enumerate 0 (clients t))"

section \<open>Data-fill nodes\<close>

datatype df_class =
    DataFillVoid | DataFillInt | DataFillFloat | DataFillComplex | DataFillBool
  | DataFillString | DataFillPath | DataFillCString | DataFillArray | DataFillArrayDataPtr
  | DataFillCluster | DataFillLVVariant | DataFillMeasureData | DataFillComplexFixedPt
  | DataFillFixedPoint | DataFillBlock | DataFillRepeatedBlock | DataFillSimpleRefnum
  | DataFillIORefnum | DataFillUDRefnum | DataFillUDTagRefnum | DataFillUDClassInst
  | DataFillPtr | DataFillPtrTo | DataFillExtData | DataFillUnexpected | DataFillTypeDef
  | SpecialDSTMCluster

datatype subtype = NoSubType | RefnumSub refnum_type | FlavorSub md_flavor

text \<open>
  The values a node attribute holds: \<open>None\<close>, an integer, a byte string, a list or tuple
  of such, or a value owned by a collaborator outside this module (a float, an \<open>LVPath\<close> or
  \<open>LVVariant\<close> object), which is kept as that collaborator's own representation.
\<close>

datatype pyvalue =
    PyNone | PyInt int | PyBytes "byte list" | PyList "pyvalue list" | PyForeign "byte list"

text \<open>
  The attributes of a node. \<open>val\<close> is \<open>self.value\<close> when it is not a list of nodes;
  \<open>isize\<close> is \<open>self.size\<close> (unset for a boolean until \<open>initVersion\<close> has run).
\<close>

record node =
  cls :: df_class
  tdType :: td_full_type
  tdSubType :: subtype
  index :: int
  tm_flags :: "int option"
  td :: "td option"
  val :: pyvalue
  isize :: "nat option"
  signed :: bool
  dims :: "int list"
  vflags :: pyvalue
  usrdef1 :: pyvalue
  usrdef2 :: pyvalue
  usrdef3 :: pyvalue
  usrdef4 :: pyvalue
  libName :: "byte list"

text \<open>
  A node and, for the composite classes, the list of child nodes that \<open>self.value\<close> holds.
\<close>

datatype datafill = DF (attrs: node) (subs: "datafill list")

section \<open>File versions\<close>

text \<open>
  The file version that \<open>self.vi.getFileVersion()\<close> returns, as the four ordered parts
  the data-fill code compares: major, minor, bugfix, stage.
\<close>

type_synonym version = "nat list"

text \<open>
  Modelled from the spec: \<open>isGreaterOrEqVersion\<close> and \<open>isSmallerVersion\<close> live in
  LVmisc, which is not among the sources. The spec describes them as the ordered comparison
  of the file version against a fixed threshold; a threshold given with fewer parts
  (\<open>4,5,0\<close>) compares only those parts.
\<close>

fun isGreaterOrEqVersion :: "version \<Rightarrow> nat list \<Rightarrow> bool" where
  "isGreaterOrEqVersion ver [] = True"
| "isGreaterOrEqVersion [] (t # ts) = True"
| "isGreaterOrEqVersion (v # vs) (t # ts) =
     (if v > t then True else if v < t then False else isGreaterOrEqVersion vs ts)"

definition isSmallerVersion :: "version \<Rightarrow> nat list \<Rightarrow> bool" where
  "isSmallerVersion ver thr = (\<not> isGreaterOrEqVersion ver thr)"

section \<open>Special cluster elements\<close>

text \<open>
  \<open>DataFill.isSpecialDSTMClusterElement\<close>: Python integers are unbounded and \<open>&\<close> is
  the two's complement conjunction, which is \<open>AND\<close> on \<open>int\<close>.
\<close>

definition isSpecialDSTMClusterElement :: "version \<Rightarrow> int \<Rightarrow> int \<Rightarrow> bool" where
  "isSpecialDSTMClusterElement ver idx flags =
     (if flags AND 0x0004 \<noteq> 0 then
        (if isSmallerVersion ver [10, 0, 0, 2] then idx = 2 else idx = 1)
      else if flags AND 0x0010 \<noteq> 0 then idx \<in> {1, 2, 3}
      else if flags AND 0x0020 \<noteq> 0 then idx = 3
      else if flags AND 0x0040 \<noteq> 0 then idx = 2
      else False)"

section \<open>Construction and binding\<close>

text \<open>
  What a node needs from its surroundings: the file version of \<open>self.vi\<close>, the two limits
  of \<open>self.po\<close>, and the collaborators that are not part of this module. \<open>ext_parse\<close>,
  \<open>ext_prepare\<close> and \<open>ext_size\<close> stand for \<open>struct\<close>, the quad-float helpers of LVmisc
  and the \<open>parseRSRCData\<close>, \<open>prepareRSRCData\<close> and \<open>expectedRSRCSize\<close> of the LVclasses
  objects; \<open>md_child\<close> creates and decodes the child of a measurement-data node on the
  descriptor that LVdatatype synthesizes for the flavor.
\<close>

datatype contained =
    OldFloat64WaveformCluster | AnalogWaveformCluster td_full_type | TimestampBlock
  | DigitalTableCluster | DigitalWaveformCluster | DynamicTableCluster

record env =
  file_version :: version
  array_data_limit :: int
  typedesc_list_limit :: int
  ext_parse :: "df_class \<Rightarrow> td_full_type \<Rightarrow> reader \<Rightarrow> (error + pyvalue) \<times> reader"
  ext_prepare :: "df_class \<Rightarrow> td_full_type \<Rightarrow> pyvalue \<Rightarrow> error + byte list"
  ext_size :: "pyvalue \<Rightarrow> nat option"
  md_child :: "contained \<Rightarrow> int option \<Rightarrow> reader \<Rightarrow> (error + datafill) \<times> reader"

text \<open>\<open>DataFill.__init__\<close>\<close>

definition base_node :: "df_class \<Rightarrow> td_full_type \<Rightarrow> subtype \<Rightarrow> node" where
  "base_node c ty sub =
     \<lparr> cls = c, tdType = ty, tdSubType = sub, index = - 1, tm_flags = None, td = None,
       val = PyNone, isize = None, signed = False, dims = [], vflags = PyNone,
       usrdef1 = PyNone, usrdef2 = PyNone, usrdef3 = PyNone, usrdef4 = PyNone, libName = [] \<rparr>"

text \<open>\<open>DataFillInt.__init__\<close>: width and signedness by type tag.\<close>

fun int_layout :: "td_full_type \<Rightarrow> (nat \<times> bool) option" where
  "int_layout TD_NumInt8 = Some (1, True)"
| "int_layout TD_NumInt16 = Some (2, True)"
| "int_layout TD_NumInt32 = Some (4, True)"
| "int_layout TD_NumInt64 = Some (8, True)"
| "int_layout TD_NumUInt8 = Some (1, False)"
| "int_layout TD_NumUInt16 = Some (2, False)"
| "int_layout TD_NumUInt32 = Some (4, False)"
| "int_layout TD_NumUInt64 = Some (8, False)"
| "int_layout TD_UnitUInt8 = Some (1, False)"
| "int_layout TD_UnitUInt16 = Some (2, False)"
| "int_layout TD_UnitUInt32 = Some (4, False)"
| "int_layout _ = None"

text \<open>The constructors of the classes, each with the attributes its \<open>__init__\<close> sets.\<close>

definition construct :: "df_class \<Rightarrow> td_full_type \<Rightarrow> subtype \<Rightarrow> error + datafill" where
  "construct c ty sub =
     (let n = base_node c ty sub in
      if c = DataFillInt then
        (case int_layout ty of
           None \<Rightarrow> Inl (RuntimeError UnexpectedType)
         | Some (sz, sg) \<Rightarrow> Inr (DF (n\<lparr>isize := Some sz, signed := sg\<rparr>) []))
      else if c = DataFillComplex then Inr (DF (n\<lparr>val := PyList [PyNone, PyNone]\<rparr>) [])
      else if c = DataFillComplexFixedPt then
        Inr (DF (n\<lparr>val := PyList [PyNone, PyNone], vflags := PyList [PyNone, PyNone]\<rparr>) [])
      else if c = DataFillUDClassInst then Inr (DF (n\<lparr>val := PyList []\<rparr>) [])
      else Inr (DF n []))"

text \<open>\<open>newDataFillRefnum\<close>\<close>

fun refnum_ctor :: "subtype \<Rightarrow> df_class" where
  "refnum_ctor (RefnumSub IVIRef) = DataFillIORefnum"
| "refnum_ctor (RefnumSub VisaRef) = DataFillIORefnum"
| "refnum_ctor (RefnumSub Imaq) = DataFillIORefnum"
| "refnum_ctor (RefnumSub UsrDefTagFlt) = DataFillUDTagRefnum"
| "refnum_ctor (RefnumSub UsrDefndTag) = DataFillUDTagRefnum"
| "refnum_ctor (RefnumSub UsrDefined) = DataFillUDRefnum"
| "refnum_ctor (RefnumSub UDClassInst) = DataFillUDClassInst"
| "refnum_ctor _ = DataFillSimpleRefnum"

definition newDataFillRefnum :: "td_full_type \<Rightarrow> subtype \<Rightarrow> error + datafill" where
  "newDataFillRefnum ty sub = construct (refnum_ctor sub) ty sub"

text \<open>The constructor table of \<open>newDataFillObject\<close>; \<open>None\<close> for a type tag it does not list.\<close>

fun ctor_table :: "td_full_type \<Rightarrow> df_class option" where
  "ctor_table TD_Void = Some DataFillVoid"
| "ctor_table TD_NumInt8 = Some DataFillInt"
| "ctor_table TD_NumInt16 = Some DataFillInt"
| "ctor_table TD_NumInt32 = Some DataFillInt"
| "ctor_table TD_NumInt64 = Some DataFillInt"
| "ctor_table TD_NumUInt8 = Some DataFillInt"
| "ctor_table TD_NumUInt16 = Some DataFillInt"
| "ctor_table TD_NumUInt32 = Some DataFillInt"
| "ctor_table TD_NumUInt64 = Some DataFillInt"
| "ctor_table TD_NumFloat32 = Some DataFillFloat"
| "ctor_table TD_NumFloat64 = Some DataFillFloat"
| "ctor_table TD_NumFloatExt = Some DataFillFloat"
| "ctor_table TD_NumComplex64 = Some DataFillComplex"
| "ctor_table TD_NumComplex128 = Some DataFillComplex"
| "ctor_table TD_NumComplexExt = Some DataFillComplex"
| "ctor_table TD_UnitUInt8 = Some DataFillInt"
| "ctor_table TD_UnitUInt16 = Some DataFillInt"
| "ctor_table TD_UnitUInt32 = Some DataFillInt"
| "ctor_table TD_UnitFloat32 = Some DataFillFloat"
| "ctor_table TD_UnitFloat64 = Some DataFillFloat"
| "ctor_table TD_UnitFloatExt = Some DataFillFloat"
| "ctor_table TD_UnitComplex64 = Some DataFillComplex"
| "ctor_table TD_UnitComplex128 = Some DataFillComplex"
| "ctor_table TD_UnitComplexExt = Some DataFillComplex"
| "ctor_table TD_BooleanU16 = Some DataFillBool"
| "ctor_table TD_Boolean = Some DataFillBool"
| "ctor_table TD_String = Some DataFillString"
| "ctor_table TD_Path = Some DataFillPath"
| "ctor_table TD_Picture = Some DataFillString"
| "ctor_table TD_CString = Some DataFillCString"
| "ctor_table TD_PasString = Some DataFillCString"
| "ctor_table TD_Tag = Some DataFillString"
| "ctor_table TD_SubString = Some DataFillUnexpected"
| "ctor_table TD_Array = Some DataFillArray"
| "ctor_table TD_ArrayDataPtr = Some DataFillArrayDataPtr"
| "ctor_table TD_SubArray = Some DataFillUnexpected"
| "ctor_table TD_ArrayInterfc = Some DataFillArray"
| "ctor_table TD_Cluster = Some DataFillCluster"
| "ctor_table TD_LVVariant = Some DataFillLVVariant"
| "ctor_table TD_MeasureData = Some DataFillMeasureData"
| "ctor_table TD_ComplexFixedPt = Some DataFillComplexFixedPt"
| "ctor_table TD_FixedPoint = Some DataFillFixedPoint"
| "ctor_table TD_Block = Some DataFillBlock"
| "ctor_table TD_TypeBlock = Some DataFillTypeDef"
| "ctor_table TD_VoidBlock = Some DataFillVoid"
| "ctor_table TD_AlignedBlock = Some DataFillBlock"
| "ctor_table TD_RepeatedBlock = Some DataFillRepeatedBlock"
| "ctor_table TD_AlignmntMarker = Some DataFillVoid"
| "ctor_table TD_Refnum = None"
| "ctor_table TD_Ptr = Some DataFillPtr"
| "ctor_table TD_PtrTo = Some DataFillPtrTo"
| "ctor_table TD_ExtData = Some DataFillExtData"
| "ctor_table TD_Function = Some DataFillUnexpected"
| "ctor_table TD_TypeDef = Some DataFillTypeDef"
| "ctor_table TD_PolyVI = Some DataFillUnexpected"
| "ctor_table (TD_Other k) = None"

text \<open>
  \<open>newDataFillObject\<close>. The entry for \<open>Refnum\<close> is \<open>newDataFillRefnum\<close>. For a type tag
  outside the table the message of the \<open>RuntimeError\<close> is formatted with \<open>str(e)\<close>, and no
  \<open>e\<close> is bound there, so what is raised is a \<open>NameError\<close>.
\<close>

definition newDataFillObject :: "td_full_type \<Rightarrow> subtype \<Rightarrow> error + datafill" where
  "newDataFillObject ty sub =
     (if ty = TD_Refnum then newDataFillRefnum ty sub
      else case ctor_table ty of
             None \<Rightarrow> Inl (NameError ''e'')
           | Some c \<Rightarrow> construct c ty sub)"

text \<open>\<open>DataFill.setTD\<close>, the binding that every class starts with.\<close>

definition base_setTD :: "node \<Rightarrow> td \<Rightarrow> int \<Rightarrow> int option \<Rightarrow> error + node" where
  "base_setTD n t idx flags =
     (if tdType n \<noteq> fullType t then Inl (RuntimeError CannotBeLinked)
      else Inr (n\<lparr>index := idx, td := Some t, tm_flags := flags\<rparr>))"

text \<open>
  The loops of the composite \<open>setTD\<close> methods. Each child is given as the function that
  binds it (\<open>sub_df.setTD\<close>); a loop returns the children after binding.
\<close>

type_synonym rebinder = "td \<Rightarrow> int \<Rightarrow> int option \<Rightarrow> error + datafill"

definition last_client :: "td \<Rightarrow> (int \<times> td) option" where
  "last_client t = (if clients t = [] then None else Some (last (clients t)))"

fun bind_all :: "rebinder list \<Rightarrow> td \<Rightarrow> int \<Rightarrow> int option \<Rightarrow> error + datafill list" where
  "bind_all [] t i flags = Inr []"
| "bind_all (b # bs) t i flags =
     (case b t i flags of
        Inl e \<Rightarrow> Inl e
      | Inr d \<Rightarrow> (case bind_all bs t i flags of Inl e \<Rightarrow> Inl e | Inr ds \<Rightarrow> Inr (d # ds)))"

fun bind_cluster ::
  "(int \<times> int \<times> td) list \<Rightarrow> rebinder list \<Rightarrow> datafill list \<Rightarrow> int option \<Rightarrow> error + datafill list"
where
  "bind_cluster [] bs ss flags = Inr ss"
| "bind_cluster ((cli_idx, td_idx, sub_td) # cs) bs ss flags =
     (if nat cli_idx \<ge> length ss then Inl IndexError
      else case (bs ! nat cli_idx) sub_td td_idx flags of
             Inl e \<Rightarrow> Inl e
           | Inr d \<Rightarrow> bind_cluster cs bs (ss[nat cli_idx := d]) flags)"

text \<open>
  The loop of \<open>SpecialDSTMCluster.setTD\<close>. The position that \<open>clientsEnumerate\<close> yields
  (\<open>cli_bad_idx\<close>) is not used; the test is made on the counter \<open>cli_idx\<close> of the values
  bound so far.
\<close>

fun bind_special ::
  "version \<Rightarrow> int \<Rightarrow> bool \<Rightarrow> int \<Rightarrow> (int \<times> int \<times> td) list \<Rightarrow> rebinder list \<Rightarrow> datafill list
     \<Rightarrow> error + datafill list"
where
  "bind_special ver flags skipNextEntry cli_idx [] bs ss = Inr ss"
| "bind_special ver flags skipNextEntry cli_idx ((cli_bad_idx, td_idx, sub_td) # cs) bs ss =
     (if \<not> isSpecialDSTMClusterElement ver cli_idx flags then
        bind_special ver flags skipNextEntry cli_idx cs bs ss
      else if skipNextEntry then bind_special ver flags False cli_idx cs bs ss
      else if nat cli_idx \<ge> length ss then Inl IndexError
      else case (bs ! nat cli_idx) sub_td td_idx (Some flags) of
             Inl e \<Rightarrow> Inl e
           | Inr d \<Rightarrow> bind_special ver flags False (cli_idx + 1) cs bs (ss[nat cli_idx := d]))"

text \<open>
  \<open>setTD\<close> of every class, given the node's attributes, its children and their rebinders.
  The array, type-def and repeated-block classes take the last client as the element
  descriptor; with no client the name \<open>sub_td\<close> is unbound when the children are reached.
\<close>

definition setTD_body ::
  "version \<Rightarrow> node \<Rightarrow> datafill list \<Rightarrow> rebinder list \<Rightarrow> td \<Rightarrow> int \<Rightarrow> int option \<Rightarrow> error + datafill"
where
  "setTD_body ver n ss bs t idx flags =
     (case base_setTD n t idx flags of
        Inl e \<Rightarrow> Inl e
      | Inr n' \<Rightarrow>
          if cls n \<in> {DataFillArray, DataFillTypeDef, DataFillRepeatedBlock, DataFillCluster,
                       SpecialDSTMCluster} \<and> ss \<noteq> [] then
            (if cls n = DataFillCluster then
               (case bind_cluster (clientsEnumerate t) bs ss flags of
                  Inl e \<Rightarrow> Inl e | Inr ss' \<Rightarrow> Inr (DF n' ss'))
             else if cls n = SpecialDSTMCluster then
               (case flags of
                  None \<Rightarrow> Inl TypeError
                | Some fl \<Rightarrow>
                    (case bind_special ver fl (fl AND 0x0200 \<noteq> 0) 0 (clientsEnumerate t) bs ss of
                       Inl e \<Rightarrow> Inl e | Inr ss' \<Rightarrow> Inr (DF n' ss')))
             else
               (case last_client t of
                  None \<Rightarrow> Inl (UnboundLocalError ''sub_td'')
                | Some (sub_td_idx, sub_td) \<Rightarrow>
                    (case bind_all bs sub_td
                            (if cls n = DataFillRepeatedBlock then sub_td_idx else - 1) flags of
                       Inl e \<Rightarrow> Inl e | Inr ss' \<Rightarrow> Inr (DF n' ss'))))
          else Inr (DF n' ss))"

fun setTD :: "version \<Rightarrow> datafill \<Rightarrow> rebinder" where
  "setTD ver (DF n ss) = (\<lambda>t idx flags. setTD_body ver n ss (map (\<lambda>s. setTD ver s) ss) t idx flags)"

text \<open>\<open>newDataFillObjectWithTD\<close> and \<open>newSpecialDSTMClusterWithTD\<close>\<close>

definition newDataFillObjectWithTD :: "version \<Rightarrow> int \<Rightarrow> int option \<Rightarrow> td \<Rightarrow> error + datafill" where
  "newDataFillObjectWithTD ver idx flags t =
     (let ty = fullType t;
          sub = (if ty = TD_MeasureData then FlavorSub (dtFlavor t)
                 else if ty = TD_Refnum then RefnumSub (refType t)
                 else NoSubType)
      in case newDataFillObject ty sub of
           Inl e \<Rightarrow> Inl e
         | Inr df \<Rightarrow> setTD ver df t idx flags)"

definition newSpecialDSTMClusterWithTD :: "version \<Rightarrow> int \<Rightarrow> int option \<Rightarrow> td \<Rightarrow> error + datafill" where
  "newSpecialDSTMClusterWithTD ver idx flags t =
     (case construct SpecialDSTMCluster (fullType t) NoSubType of
        Inl e \<Rightarrow> Inl e
      | Inr df \<Rightarrow> setTD ver df t idx flags)"

section \<open>Binary decode\<close>

text \<open>
  \<open>initWithRSRCParse\<close> of every class. A decode returns the filled node or the exception,
  and in both cases the byte source as it was left. A child parser is the body of the
  \<open>try\<close> block of a composite: \<open>newDataFillObjectWithTD\<close> on the client's descriptor, then
  \<open>initWithRSRC\<close> of the new node.
\<close>

type_synonym 'a parse = "reader \<Rightarrow> (error + 'a) \<times> reader"
type_synonym child_parser = "int \<Rightarrow> int option \<Rightarrow> datafill parse"

definition set_val :: "pyvalue \<Rightarrow> datafill \<Rightarrow> datafill" where
  "set_val v df = DF ((attrs df)\<lparr>val := v\<rparr>) (subs df)"

definition set_subs :: "datafill list \<Rightarrow> datafill \<Rightarrow> datafill" where
  "set_subs ss df = DF (attrs df) ss"

definition isRefnumTag :: "td \<Rightarrow> bool" where
  "isRefnumTag t = (refType t \<in> {IVIRef, VisaRef, UsrDefTagFlt, UsrDefndTag})"

definition float_types :: "td_full_type set" where
  "float_types = {TD_NumFloat32, TD_UnitFloat32, TD_NumFloat64, TD_UnitFloat64,
                  TD_NumFloatExt, TD_UnitFloatExt}"

definition complex_types :: "td_full_type set" where
  "complex_types = {TD_NumComplex64, TD_UnitComplex64, TD_NumComplex128, TD_UnitComplex128,
                    TD_NumComplexExt, TD_UnitComplexExt}"

definition ext_initWithRSRCParse :: "env \<Rightarrow> datafill \<Rightarrow> datafill parse" where
  "ext_initWithRSRCParse e df rd =
     (case ext_parse e (cls (attrs df)) (tdType (attrs df)) rd of
        (Inl x, rd') \<Rightarrow> (Inl x, rd')
      | (Inr v, rd') \<Rightarrow> (Inr (set_val v df), rd'))"

definition DataFillInt_initWithRSRCParse :: "datafill \<Rightarrow> datafill parse" where
  "DataFillInt_initWithRSRCParse df rd =
     (case isize (attrs df) of
        None \<Rightarrow> (Inl TypeError, rd)
      | Some sz \<Rightarrow>
          (let (bs, rd') = read sz rd
           in (Inr (set_val (PyInt (int_from_bytes (signed (attrs df)) bs)) df), rd')))"

text \<open>\<open>DataFillBool.initVersion\<close>\<close>

definition DataFillBool_initVersion :: "version \<Rightarrow> datafill \<Rightarrow> error + datafill" where
  "DataFillBool_initVersion ver df =
     (if tdType (attrs df) = TD_BooleanU16 then Inr (DF ((attrs df)\<lparr>isize := Some 2\<rparr>) (subs df))
      else if tdType (attrs df) = TD_Boolean then
        (if isGreaterOrEqVersion ver [4, 5, 0]
         then Inr (DF ((attrs df)\<lparr>isize := Some 1\<rparr>) (subs df))
         else Inr (DF ((attrs df)\<lparr>isize := Some 2\<rparr>) (subs df)))
      else Inl (RuntimeError UnexpectedType))"

definition DataFillBool_initWithRSRCParse :: "version \<Rightarrow> datafill \<Rightarrow> datafill parse" where
  "DataFillBool_initWithRSRCParse ver df rd =
     (case DataFillBool_initVersion ver df of
        Inl e \<Rightarrow> (Inl e, rd)
      | Inr df' \<Rightarrow>
          (let (v, rd') = read_uint (the (isize (attrs df'))) rd
           in (Inr (set_val (PyInt v) df'), rd')))"

definition DataFillString_initWithRSRCParse :: "datafill \<Rightarrow> datafill parse" where
  "DataFillString_initWithRSRCParse df rd =
     (let (bs, rd') = read_lstr rd in (Inr (set_val (PyBytes bs) df), rd'))"

text \<open>
  \<open>DataFillPath\<close>: the four bytes of the class identifier are read, the position is set back
  and the path object parses from there. The identifiers are the ASCII bytes of
  \<open>PTH0\<close>, \<open>PTH1\<close> and \<open>PTH2\<close>.
\<close>

definition DataFillPath_initWithRSRCParse :: "env \<Rightarrow> datafill \<Rightarrow> datafill parse" where
  "DataFillPath_initWithRSRCParse e df rd =
     (let startPos = tell rd; (clsident, rd1) = read 4 rd in
      if clsident \<in> {[0x50, 0x54, 0x48, 0x30], [0x50, 0x54, 0x48, 0x31], [0x50, 0x54, 0x48, 0x32]}
      then ext_initWithRSRCParse e df (rd1\<lparr>pos := startPos\<rparr>)
      else (Inl (RuntimeError UnrecognizedPathClass), rd1))"

text \<open>The classes whose value is one unsigned 4-byte integer.\<close>

definition uint32_initWithRSRCParse :: "datafill \<Rightarrow> datafill parse" where
  "uint32_initWithRSRCParse df rd =
     (let (v, rd') = read_uint 4 rd in (Inr (set_val (PyInt v) df), rd'))"

definition DataFillFixedPoint_initWithRSRCParse :: "datafill \<Rightarrow> datafill parse" where
  "DataFillFixedPoint_initWithRSRCParse df rd =
     (case td (attrs df) of
        None \<Rightarrow> (Inl AttributeError, snd (read_uint 8 rd))
      | Some t \<Rightarrow>
          (let (v, rd1) = read_uint 8 rd in
           if allocOv t then
             (let (f, rd2) = read_uint 1 rd1
              in (Inr (DF ((attrs df)\<lparr>val := PyInt v, vflags := PyInt f\<rparr>) (subs df)), rd2))
           else (Inr (DF ((attrs df)\<lparr>val := PyInt v, vflags := PyNone\<rparr>) (subs df)), rd1)))"

definition DataFillComplexFixedPt_initWithRSRCParse :: "datafill \<Rightarrow> datafill parse" where
  "DataFillComplexFixedPt_initWithRSRCParse df rd =
     (case td (attrs df) of
        None \<Rightarrow> (Inl AttributeError, snd (read_uint 8 rd))
      | Some t \<Rightarrow>
          (let (v0, rd1) = read_uint 8 rd;
               (f0, rd2) = (if allocOv t then (let (f, r) = read_uint 1 rd1 in (PyInt f, r))
                            else (PyNone, rd1));
               (v1, rd3) = read_uint 8 rd2;
               (f1, rd4) = (if allocOv t then (let (f, r) = read_uint 1 rd3 in (PyInt f, r))
                            else (PyNone, rd3))
           in (Inr (DF ((attrs df)\<lparr>val := PyList [PyInt v0, PyInt v1], vflags := PyList [f0, f1]\<rparr>)
                       (subs df)), rd4)))"

definition DataFillBlock_initWithRSRCParse :: "datafill \<Rightarrow> datafill parse" where
  "DataFillBlock_initWithRSRCParse df rd =
     (case td (attrs df) of
        None \<Rightarrow> (Inl AttributeError, rd)
      | Some t \<Rightarrow> (let (bs, rd') = read (blkSize t) rd in (Inr (set_val (PyBytes bs) df), rd')))"

definition DataFillIORefnum_initWithRSRCParse :: "version \<Rightarrow> datafill \<Rightarrow> datafill parse" where
  "DataFillIORefnum_initWithRSRCParse ver df rd =
     (if isGreaterOrEqVersion ver [6, 0, 0] then
        (case td (attrs df) of
           None \<Rightarrow> (Inl AttributeError, rd)
         | Some t \<Rightarrow>
             if isRefnumTag t then DataFillString_initWithRSRCParse df rd
             else uint32_initWithRSRCParse df rd)
      else uint32_initWithRSRCParse df rd)"

definition DataFillUDTagRefnum_initWithRSRCParse :: "version \<Rightarrow> datafill \<Rightarrow> datafill parse" where
  "DataFillUDTagRefnum_initWithRSRCParse ver df rd =
     (let n0 = (attrs df)\<lparr>usrdef1 := PyNone, usrdef2 := PyNone, usrdef3 := PyNone, usrdef4 := PyNone\<rparr>;
          (v, rd1) = read_lstr rd;
          n1 = n0\<lparr>val := PyBytes v\<rparr>;
          rd2 = (if isGreaterOrEqVersion ver [12, 0, 0, 2] \<and> isSmallerVersion ver [12, 0, 0, 5]
                 then snd (read 1 rd1) else rd1)
      in case td n1 of
           None \<Rightarrow> (Inl AttributeError, rd2)
         | Some t \<Rightarrow>
             if refType t = UsrDefTagFlt then
               (let (u1, rd3) = read_lstr rd2;
                    (u2, rd4) = read_lstr rd3;
                    (u3, rd5) = read_uint 4 rd4;
                    (u4, rd6) = read_lstr rd5
                in (Inr (DF (n1\<lparr>usrdef1 := PyBytes u1, usrdef2 := PyBytes u2,
                                usrdef3 := PyInt u3, usrdef4 := PyBytes u4\<rparr>) (subs df)), rd6))
             else (Inr (DF n1 (subs df)), rd2))"

fun read_levels :: "nat \<Rightarrow> reader \<Rightarrow> pyvalue list \<times> reader" where
  "read_levels 0 rd = ([], rd)"
| "read_levels (Suc k) rd =
     (let (libVersion, rd1) = read_lstr rd; (vs, rd2) = read_levels k rd1
      in (PyBytes libVersion # vs, rd2))"

definition DataFillUDClassInst_initWithRSRCParse :: "env \<Rightarrow> datafill \<Rightarrow> datafill parse" where
  "DataFillUDClassInst_initWithRSRCParse e df rd =
     (let (numLevels, rd1) = read_uint 4 rd;
          (strlen, rd2) = read_uint 1 rd1;
          (name, rd3) = read (nat strlen) rd2;
          rd4 = (if tell rd3 mod 4 > 0 then snd (read (4 - tell rd3 mod 4) rd3) else rd3)
      in if numLevels > typedesc_list_limit e then
           (Inl (RuntimeError (ClaimsToContain numLevels (typedesc_list_limit e))), rd4)
         else
           (let (vs, rd5) = read_levels (nat numLevels) rd4
            in (Inr (DF ((attrs df)\<lparr>val := PyList vs, libName := name\<rparr>) (subs df)), rd5)))"

definition DataFillPtr_initWithRSRCParse :: "version \<Rightarrow> datafill \<Rightarrow> datafill parse" where
  "DataFillPtr_initWithRSRCParse ver df rd =
     (if isSmallerVersion ver [8, 6, 0, 1] then uint32_initWithRSRCParse df rd
      else (Inr (set_val PyNone df), rd))"

text \<open>
  \<open>DataFillMeasureData.initVersion\<close>. Below 7.0.0.2 the message of the
  \<open>NotImplementedError\<close> is formatted from \<open>sub_td.dtFlavor()\<close>; the method binds no
  \<open>sub_td\<close> and the module has no such global, so building the message raises
  \<open>NameError\<close> and the \<open>NotImplementedError\<close> is never constructed.
\<close>

fun flavor_contained :: "md_flavor \<Rightarrow> error + contained" where
  "flavor_contained OldFloat64Waveform = Inr OldFloat64WaveformCluster"
| "flavor_contained Int16Waveform = Inr (AnalogWaveformCluster TD_NumInt16)"
| "flavor_contained Float64Waveform = Inr (AnalogWaveformCluster TD_NumFloat64)"
| "flavor_contained Float32Waveform = Inr (AnalogWaveformCluster TD_NumFloat32)"
| "flavor_contained TimeStamp = Inr TimestampBlock"
| "flavor_contained Digitaldata = Inr DigitalTableCluster"
| "flavor_contained DigitalWaveform = Inr DigitalWaveformCluster"
| "flavor_contained Dynamicdata = Inr DynamicTableCluster"
| "flavor_contained FloatExtWaveform = Inr (AnalogWaveformCluster TD_NumFloatExt)"
| "flavor_contained UInt8Waveform = Inr (AnalogWaveformCluster TD_NumUInt8)"
| "flavor_contained UInt16Waveform = Inr (AnalogWaveformCluster TD_NumUInt16)"
| "flavor_contained UInt32Waveform = Inr (AnalogWaveformCluster TD_NumUInt32)"
| "flavor_contained Int8Waveform = Inr (AnalogWaveformCluster TD_NumInt8)"
| "flavor_contained Int32Waveform = Inr (AnalogWaveformCluster TD_NumInt32)"
| "flavor_contained Complex64Waveform = Inr (AnalogWaveformCluster TD_NumComplex64)"
| "flavor_contained Complex128Waveform = Inr (AnalogWaveformCluster TD_NumComplex128)"
| "flavor_contained ComplexExtWaveform = Inr (AnalogWaveformCluster TD_NumComplexExt)"
| "flavor_contained Int64Waveform = Inr (AnalogWaveformCluster TD_NumInt64)"
| "flavor_contained UInt64Waveform = Inr (AnalogWaveformCluster TD_NumUInt64)"
| "flavor_contained (OtherFlavor k) = Inl NotImplementedError"

definition DataFillMeasureData_initVersion :: "version \<Rightarrow> subtype \<Rightarrow> error + contained" where
  "DataFillMeasureData_initVersion ver sub =
     (if isSmallerVersion ver [7, 0, 0, 2] then Inl (NameError ''sub_td'')
      else case sub of
             FlavorSub f \<Rightarrow> flavor_contained f
           | _ \<Rightarrow> Inl NotImplementedError)"

text \<open>
  Modelled from the spec: the descriptors that \<open>initVersion\<close> synthesizes are built by
  LVdatatype, which is not among the sources. Only their type tag is needed here, for the
  message that wraps a failing child: the timestamp is a block, the others are clusters.
\<close>

fun contained_fullType :: "contained \<Rightarrow> td_full_type" where
  "contained_fullType TimestampBlock = TD_Block"
| "contained_fullType _ = TD_Cluster"

definition DataFillMeasureData_initWithRSRCParse :: "env \<Rightarrow> datafill \<Rightarrow> datafill parse" where
  "DataFillMeasureData_initWithRSRCParse e df rd =
     (case DataFillMeasureData_initVersion (file_version e) (tdSubType (attrs df)) of
        Inl x \<Rightarrow> (Inl x, rd)
      | Inr c \<Rightarrow>
          (case md_child e c (tm_flags (attrs df)) rd of
             (Inl x, rd') \<Rightarrow> (Inl (RuntimeError (MeasureDataFlavorFailed (contained_fullType c) x)), rd')
           | (Inr sub_df, rd') \<Rightarrow> (Inr (set_subs [sub_df] df), rd')))"

text \<open>The loops of the composite classes over their child parsers.\<close>

fun read_dims :: "nat \<Rightarrow> reader \<Rightarrow> int list \<times> reader" where
  "read_dims 0 rd = ([], rd)"
| "read_dims (Suc k) rd =
     (let (v, rd1) = read_uint 4 rd; (vs, rd2) = read_dims k rd1 in (v # vs, rd2))"

definition totItems :: "int list \<Rightarrow> int" where
  "totItems ds = foldl (\<lambda>tot dim. tot * (dim AND 0x7fffffff)) 1 ds"

fun parse_repeat :: "nat \<Rightarrow> td_full_type \<Rightarrow> datafill parse \<Rightarrow> datafill list parse" where
  "parse_repeat 0 ty p rd = (Inr [], rd)"
| "parse_repeat (Suc k) ty p rd =
     (case p rd of
        (Inl x, rd1) \<Rightarrow> (Inl (RuntimeError (DataTypeFailed ty x)), rd1)
      | (Inr d, rd1) \<Rightarrow>
          (case parse_repeat k ty p rd1 of
             (Inl x, rd2) \<Rightarrow> (Inl x, rd2)
           | (Inr ds, rd2) \<Rightarrow> (Inr (d # ds), rd2)))"

fun parse_cluster :: "int option \<Rightarrow> (int \<times> td \<times> child_parser) list \<Rightarrow> datafill list parse" where
  "parse_cluster flags [] rd = (Inr [], rd)"
| "parse_cluster flags ((td_idx, sub_td, p) # ps) rd =
     (case p td_idx flags rd of
        (Inl x, rd1) \<Rightarrow> (Inl (RuntimeError (DataTypeFailed (fullType sub_td) x)), rd1)
      | (Inr d, rd1) \<Rightarrow>
          (case parse_cluster flags ps rd1 of
             (Inl x, rd2) \<Rightarrow> (Inl x, rd2)
           | (Inr ds, rd2) \<Rightarrow> (Inr (d # ds), rd2)))"

text \<open>
  The loop of \<open>DataFillTypeDef\<close>: the handler of a failing child formats its message from
  \<open>client.nested\<close>, and no \<open>client\<close> is bound, so the handler itself raises \<open>NameError\<close>.
\<close>

fun parse_typedef :: "int option \<Rightarrow> (int \<times> td \<times> child_parser) list \<Rightarrow> datafill list parse" where
  "parse_typedef flags [] rd = (Inr [], rd)"
| "parse_typedef flags ((td_idx, sub_td, p) # ps) rd =
     (case p (- 1) flags rd of
        (Inl x, rd1) \<Rightarrow> (Inl (NameError ''client''), rd1)
      | (Inr d, rd1) \<Rightarrow>
          (case parse_typedef flags ps rd1 of
             (Inl x, rd2) \<Rightarrow> (Inl x, rd2)
           | (Inr ds, rd2) \<Rightarrow> (Inr (d # ds), rd2)))"

text \<open>
  The loop of \<open>SpecialDSTMCluster.initWithRSRCParse\<close>; \<open>cli_idx\<close> is the position of the
  client, as \<open>clientsEnumerate\<close> counts it.
\<close>

fun parse_special ::
  "version \<Rightarrow> int \<Rightarrow> bool \<Rightarrow> int \<Rightarrow> (int \<times> td \<times> child_parser) list \<Rightarrow> datafill list parse"
where
  "parse_special ver flags skipNextEntry cli_idx [] rd = (Inr [], rd)"
| "parse_special ver flags skipNextEntry cli_idx ((td_idx, sub_td, p) # ps) rd =
     (if \<not> isSpecialDSTMClusterElement ver cli_idx flags then
        parse_special ver flags skipNextEntry (cli_idx + 1) ps rd
      else if skipNextEntry then parse_special ver flags False (cli_idx + 1) ps rd
      else case p td_idx (Some flags) rd of
             (Inl x, rd1) \<Rightarrow> (Inl (RuntimeError (DataTypeFailed (fullType sub_td) x)), rd1)
           | (Inr d, rd1) \<Rightarrow>
               (case parse_special ver flags False (cli_idx + 1) ps rd1 of
                  (Inl x, rd2) \<Rightarrow> (Inl x, rd2)
                | (Inr ds, rd2) \<Rightarrow> (Inr (d # ds), rd2)))"

definition with_subs :: "datafill \<Rightarrow> (error + datafill list) \<times> reader \<Rightarrow> (error + datafill) \<times> reader" where
  "with_subs df r = (case r of (Inl x, rd) \<Rightarrow> (Inl x, rd) | (Inr ss, rd) \<Rightarrow> (Inr (set_subs ss df), rd))"

definition DataFillArray_initWithRSRCParse ::
  "env \<Rightarrow> (int \<times> td \<times> child_parser) list \<Rightarrow> datafill \<Rightarrow> datafill parse"
where
  "DataFillArray_initWithRSRCParse e ps df rd =
     (case td (attrs df) of
        None \<Rightarrow> (Inl AttributeError, rd)
      | Some t \<Rightarrow>
          (let (ds, rd1) = read_dims (length (dimensions t)) rd;
               df1 = DF ((attrs df)\<lparr>dims := ds\<rparr>) (subs df)
           in if ps = [] then (Inl (RuntimeError UsedBeforeInitialized), rd1)
              else
                (let (sub_td_idx, sub_td, p) = last ps in
                 if totItems ds > array_data_limit e then
                   (Inl (RuntimeError (ClaimsToContain (totItems ds) (array_data_limit e))), rd1)
                 else with_subs df1
                        (parse_repeat (nat (totItems ds)) (fullType sub_td)
                           (p sub_td_idx (tm_flags (attrs df))) rd1))))"

text \<open>
  \<open>DataFillRepeatedBlock\<close>: with no client, \<open>sub_td\<close> is unbound when the first repetition
  is reached, and so it is in the handler that would wrap the failure.
\<close>

definition DataFillRepeatedBlock_initWithRSRCParse ::
  "env \<Rightarrow> (int \<times> td \<times> child_parser) list \<Rightarrow> datafill \<Rightarrow> datafill parse"
where
  "DataFillRepeatedBlock_initWithRSRCParse e ps df rd =
     (case td (attrs df) of
        None \<Rightarrow> (Inl AttributeError, rd)
      | Some t \<Rightarrow>
          if int (numRepeats t) > array_data_limit e then
            (Inl (RuntimeError (ClaimsToContain (int (numRepeats t)) (array_data_limit e))), rd)
          else if ps = [] then
            (if numRepeats t = 0 then (Inr (set_subs [] df), rd)
             else (Inl (UnboundLocalError ''sub_td''), rd))
          else
            (let (sub_td_idx, sub_td, p) = last ps
             in with_subs df
                  (parse_repeat (numRepeats t) (fullType sub_td)
                     (p sub_td_idx (tm_flags (attrs df))) rd)))"

definition SpecialDSTMCluster_initWithRSRCParse ::
  "env \<Rightarrow> (int \<times> td \<times> child_parser) list \<Rightarrow> datafill \<Rightarrow> datafill parse"
where
  "SpecialDSTMCluster_initWithRSRCParse e ps df rd =
     (case tm_flags (attrs df) of
        None \<Rightarrow> (Inl TypeError, rd)
      | Some flags \<Rightarrow>
          (case td (attrs df) of
             None \<Rightarrow> (Inl AttributeError, rd)
           | Some t \<Rightarrow>
               with_subs df (parse_special (file_version e) flags (flags AND 0x0200 \<noteq> 0) 0 ps rd)))"

text \<open>The dispatch on the class of the node: which \<open>initWithRSRCParse\<close> runs.\<close>

definition initWithRSRCParse_body ::
  "env \<Rightarrow> (int \<times> td \<times> child_parser) list \<Rightarrow> datafill \<Rightarrow> datafill parse"
where
  "initWithRSRCParse_body e ps df rd =
     (case cls (attrs df) of
        DataFillVoid \<Rightarrow> (Inr (set_val PyNone df), rd)
      | DataFillInt \<Rightarrow> DataFillInt_initWithRSRCParse df rd
      | DataFillFloat \<Rightarrow>
          (if tdType (attrs df) \<in> float_types then ext_initWithRSRCParse e df rd
           else (Inl (RuntimeError UnexpectedType), rd))
      | DataFillComplex \<Rightarrow>
          (if tdType (attrs df) \<in> complex_types then ext_initWithRSRCParse e df rd
           else (Inl (RuntimeError UnexpectedType), rd))
      | DataFillBool \<Rightarrow> DataFillBool_initWithRSRCParse (file_version e) df rd
      | DataFillString \<Rightarrow> DataFillString_initWithRSRCParse df rd
      | DataFillPath \<Rightarrow> DataFillPath_initWithRSRCParse e df rd
      | DataFillCString \<Rightarrow> uint32_initWithRSRCParse df rd
      | DataFillArray \<Rightarrow> DataFillArray_initWithRSRCParse e ps df rd
      | DataFillArrayDataPtr \<Rightarrow> uint32_initWithRSRCParse df rd
      | DataFillCluster \<Rightarrow>
          (case td (attrs df) of
             None \<Rightarrow> (Inl AttributeError, rd)
           | Some t \<Rightarrow> with_subs df (parse_cluster (tm_flags (attrs df)) ps rd))
      | DataFillLVVariant \<Rightarrow> ext_initWithRSRCParse e df rd
      | DataFillMeasureData \<Rightarrow> DataFillMeasureData_initWithRSRCParse e df rd
      | DataFillComplexFixedPt \<Rightarrow> DataFillComplexFixedPt_initWithRSRCParse df rd
      | DataFillFixedPoint \<Rightarrow> DataFillFixedPoint_initWithRSRCParse df rd
      | DataFillBlock \<Rightarrow> DataFillBlock_initWithRSRCParse df rd
      | DataFillRepeatedBlock \<Rightarrow> DataFillRepeatedBlock_initWithRSRCParse e ps df rd
      | DataFillSimpleRefnum \<Rightarrow> uint32_initWithRSRCParse df rd
      | DataFillIORefnum \<Rightarrow> DataFillIORefnum_initWithRSRCParse (file_version e) df rd
      | DataFillUDRefnum \<Rightarrow> uint32_initWithRSRCParse df rd
      | DataFillUDTagRefnum \<Rightarrow> DataFillUDTagRefnum_initWithRSRCParse (file_version e) df rd
      | DataFillUDClassInst \<Rightarrow> DataFillUDClassInst_initWithRSRCParse e df rd
      | DataFillPtr \<Rightarrow> DataFillPtr_initWithRSRCParse (file_version e) df rd
      | DataFillPtrTo \<Rightarrow> uint32_initWithRSRCParse df rd
      | DataFillExtData \<Rightarrow> (Inl NotImplementedError, rd)
      | DataFillUnexpected \<Rightarrow> (Inr (set_val PyNone df), rd)
      | DataFillTypeDef \<Rightarrow>
          (case td (attrs df) of
             None \<Rightarrow> (Inl AttributeError, rd)
           | Some t \<Rightarrow> with_subs df (parse_typedef (tm_flags (attrs df)) ps rd))
      | SpecialDSTMCluster \<Rightarrow> SpecialDSTMCluster_initWithRSRCParse e ps df rd)"

text \<open>
  The parser of a descriptor: \<open>newDataFillObjectWithTD\<close>, then \<open>initWithRSRC\<close> of the new
  node, the parsers of its clients being those of the client descriptors.
\<close>

fun parse_td :: "env \<Rightarrow> td \<Rightarrow> child_parser" where
  "parse_td e (TD ty rt fl cs dm nr bsz ov) =
     (\<lambda>idx flags rd.
        case newDataFillObjectWithTD (file_version e) idx flags (TD ty rt fl cs dm nr bsz ov) of
          Inl x \<Rightarrow> (Inl x, rd)
        | Inr df \<Rightarrow>
            initWithRSRCParse_body e (map (\<lambda>(td_idx, sub_td). (td_idx, sub_td, parse_td e sub_td)) cs) df rd)"

definition child_parsers :: "env \<Rightarrow> td \<Rightarrow> (int \<times> td \<times> child_parser) list" where
  "child_parsers e t = map (\<lambda>(td_idx, sub_td). (td_idx, sub_td, parse_td e sub_td)) (clients t)"

text \<open>\<open>initWithRSRC\<close> of a node that exists already.\<close>

definition initWithRSRC :: "env \<Rightarrow> datafill \<Rightarrow> datafill parse" where
  "initWithRSRC e df rd =
     (case td (attrs df) of
        None \<Rightarrow> initWithRSRCParse_body e [] df rd
      | Some t \<Rightarrow> initWithRSRCParse_body e (child_parsers e t) df rd)"

section \<open>Binary encode\<close>

text \<open>
  The Python built-ins the encoders apply to an attribute: \<open>int(v)\<close>, \<open>len(v)\<close>, \<open>v[i]\<close>
  and the concatenation of \<open>v\<close> to a byte string. Where the attribute has no such
  operation, Python raises \<open>TypeError\<close>. (\<open>int\<close> of a byte string or of a collaborator's
  value is not evaluated: it is \<open>ValueError\<close> here.)
\<close>

fun py_int :: "pyvalue \<Rightarrow> error + int" where
  "py_int (PyInt i) = Inr i"
| "py_int PyNone = Inl TypeError"
| "py_int (PyList xs) = Inl TypeError"
| "py_int (PyBytes bs) = Inl ValueError"
| "py_int (PyForeign x) = Inl ValueError"

fun py_len :: "pyvalue \<Rightarrow> error + nat" where
  "py_len (PyBytes bs) = Inr (length bs)"
| "py_len (PyList xs) = Inr (length xs)"
| "py_len _ = Inl TypeError"

fun py_bytes :: "pyvalue \<Rightarrow> error + byte list" where
  "py_bytes (PyBytes bs) = Inr bs"
| "py_bytes _ = Inl TypeError"

fun py_item :: "pyvalue \<Rightarrow> nat \<Rightarrow> error + pyvalue" where
  "py_item (PyList xs) i = (if i < length xs then Inr (xs ! i) else Inl IndexError)"
| "py_item (PyBytes bs) i = (if i < length bs then Inr (PyInt (uint (bs ! i))) else Inl IndexError)"
| "py_item _ i = Inl TypeError"

text \<open>\<open>int(v).to_bytes(n, byteorder='big', signed=sg)\<close>\<close>

definition int_field :: "nat \<Rightarrow> bool \<Rightarrow> pyvalue \<Rightarrow> error + byte list" where
  "int_field n sg v = (case py_int v of Inl x \<Rightarrow> Inl x | Inr i \<Rightarrow> int_to_bytes n sg i)"

text \<open>\<open>len(v).to_bytes(4, byteorder='big', signed=False)\<close>\<close>

definition len_field :: "pyvalue \<Rightarrow> error + byte list" where
  "len_field v = (case py_len v of Inl x \<Rightarrow> Inl x | Inr l \<Rightarrow> int_to_bytes 4 False (int l))"

text \<open>Two parts of a buffer, the second evaluated only when the first did not raise.\<close>

definition cat :: "error + byte list \<Rightarrow> error + byte list \<Rightarrow> error + byte list" where
  "cat a b = (case a of Inl x \<Rightarrow> Inl x | Inr xs \<Rightarrow> (case b of Inl x \<Rightarrow> Inl x | Inr ys \<Rightarrow> Inr (xs @ ys)))"

text \<open>The length of \<open>v\<close> in four bytes, then \<open>v\<close> itself.\<close>

definition lstr_field :: "pyvalue \<Rightarrow> error + byte list" where
  "lstr_field v = cat (len_field v) (py_bytes v)"

text \<open>
  Modelled from the spec: \<open>preparePStr\<close> belongs to LVmisc, which is not among the sources.
  The spec gives the layout: the length in one byte, the string, and zero bytes up to the
  next multiple of \<open>padto\<close>.
\<close>

definition preparePStr :: "byte list \<Rightarrow> nat \<Rightarrow> error + byte list" where
  "preparePStr strval padto =
     (case int_to_bytes 1 False (int (length strval)) of
        Inl x \<Rightarrow> Inl x
      | Inr l \<Rightarrow>
          (let buf = l @ strval; uneven_len = length buf mod padto
           in Inr (if uneven_len > 0 then buf @ replicate (padto - uneven_len) 0 else buf)))"

type_synonym encoded = "error + (byte list \<times> datafill)"

fun collect :: "encoded list \<Rightarrow> error + (byte list \<times> datafill list)" where
  "collect [] = Inr ([], [])"
| "collect (r # rs) =
     (case r of
        Inl x \<Rightarrow> Inl x
      | Inr (b, d) \<Rightarrow>
          (case collect rs of Inl x \<Rightarrow> Inl x | Inr (bs, ds) \<Rightarrow> Inr (b @ bs, d # ds)))"

definition leaf :: "node \<Rightarrow> datafill list \<Rightarrow> error + byte list \<Rightarrow> encoded" where
  "leaf n ss r = (case r of Inl x \<Rightarrow> Inl x | Inr buf \<Rightarrow> Inr (buf, DF n ss))"

definition children_prepareRSRCData :: "node \<Rightarrow> byte list \<Rightarrow> encoded list \<Rightarrow> encoded" where
  "children_prepareRSRCData n pre rs =
     (case collect rs of Inl x \<Rightarrow> Inl x | Inr (buf, ss') \<Rightarrow> Inr (pre @ buf, DF n ss'))"

fun dims_bytes :: "int list \<Rightarrow> error + byte list" where
  "dims_bytes [] = Inr []"
| "dims_bytes (d # ds) = cat (int_to_bytes 4 False d) (dims_bytes ds)"

text \<open>
  \<open>DataFillBlock.prepareRSRCData\<close>: a value whose length is not the block size is padded
  with zero bytes or cut, and the node keeps the changed value.
\<close>

definition DataFillBlock_prepareRSRCData :: "node \<Rightarrow> datafill list \<Rightarrow> encoded" where
  "DataFillBlock_prepareRSRCData n ss =
     (case py_len (val n) of
        Inl x \<Rightarrow> Inl x
      | Inr l \<Rightarrow>
          (case td n of
             None \<Rightarrow> Inl AttributeError
           | Some t \<Rightarrow>
               (case py_bytes (val n) of
                  Inl x \<Rightarrow> Inl x
                | Inr v \<Rightarrow>
                    (let v' = (if l \<noteq> blkSize t then
                                 (if int (blkSize t) - int l > 0
                                  then v @ replicate (blkSize t - l) 0
                                  else take (blkSize t) v)
                               else v)
                     in Inr (v', DF (n\<lparr>val := PyBytes v'\<rparr>) ss)))))"

definition fixedpt_part :: "node \<Rightarrow> pyvalue \<Rightarrow> pyvalue \<Rightarrow> error + byte list" where
  "fixedpt_part n v f =
     cat (int_field 8 False v)
         (case td n of
            None \<Rightarrow> Inl AttributeError
          | Some t \<Rightarrow> if allocOv t then int_field 1 False f else Inr [])"

definition DataFillComplexFixedPt_prepareRSRCData :: "node \<Rightarrow> error + byte list" where
  "DataFillComplexFixedPt_prepareRSRCData n =
     cat (case py_item (val n) 0 of
            Inl x \<Rightarrow> Inl x
          | Inr v0 \<Rightarrow>
              cat (int_field 8 False v0)
                  (case td n of
                     None \<Rightarrow> Inl AttributeError
                   | Some t \<Rightarrow>
                       if allocOv t then
                         (case py_item (vflags n) 0 of Inl x \<Rightarrow> Inl x | Inr f0 \<Rightarrow> int_field 1 False f0)
                       else Inr []))
         (case py_item (val n) 1 of
            Inl x \<Rightarrow> Inl x
          | Inr v1 \<Rightarrow>
              cat (int_field 8 False v1)
                  (case td n of
                     None \<Rightarrow> Inl AttributeError
                   | Some t \<Rightarrow>
                       if allocOv t then
                         (case py_item (vflags n) 1 of Inl x \<Rightarrow> Inl x | Inr f1 \<Rightarrow> int_field 1 False f1)
                       else Inr []))"

definition DataFillIORefnum_prepareRSRCData :: "version \<Rightarrow> node \<Rightarrow> error + byte list" where
  "DataFillIORefnum_prepareRSRCData ver n =
     (if isGreaterOrEqVersion ver [6, 0, 0] then
        (case td n of
           None \<Rightarrow> Inl AttributeError
         | Some t \<Rightarrow> if isRefnumTag t then lstr_field (val n) else int_field 4 False (val n))
      else int_field 4 False (val n))"

text \<open>
  \<open>DataFillUDTagRefnum.prepareRSRCData\<close>. For the float tag kind the third field is written
  as \<open>len(self.usrdef3).to_bytes(4, ...)\<close>, the length of \<open>usrdef3\<close>, not its value.
\<close>

definition DataFillUDTagRefnum_prepareRSRCData :: "version \<Rightarrow> node \<Rightarrow> error + byte list" where
  "DataFillUDTagRefnum_prepareRSRCData ver n =
     cat (lstr_field (val n))
    (cat (if isGreaterOrEqVersion ver [12, 0, 0, 2] \<and> isSmallerVersion ver [12, 0, 0, 5]
          then Inr [0] else Inr [])
         (case td n of
            None \<Rightarrow> Inl AttributeError
          | Some t \<Rightarrow>
              if refType t = UsrDefTagFlt then
                cat (lstr_field (usrdef1 n))
               (cat (lstr_field (usrdef2 n))
               (cat (len_field (usrdef3 n))
                    (lstr_field (usrdef4 n))))
              else Inr []))"

fun versions_bytes :: "pyvalue list \<Rightarrow> error + byte list" where
  "versions_bytes [] = Inr []"
| "versions_bytes (v # vs) = cat (lstr_field v) (versions_bytes vs)"

definition DataFillUDClassInst_prepareRSRCData :: "node \<Rightarrow> error + byte list" where
  "DataFillUDClassInst_prepareRSRCData n =
     cat (len_field (val n))
    (cat (preparePStr (libName n) 4)
         (case val n of PyList vs \<Rightarrow> versions_bytes vs | _ \<Rightarrow> Inl TypeError))"

definition DataFillPtr_prepareRSRCData :: "version \<Rightarrow> node \<Rightarrow> error + byte list" where
  "DataFillPtr_prepareRSRCData ver n =
     (if isSmallerVersion ver [8, 6, 0, 1] then int_field 4 False (val n) else Inr [])"

text \<open>
  \<open>prepareRSRCData\<close> of every class, given the node's attributes, its children and what
  \<open>prepareRSRCData\<close> of each child returns. The result is the buffer and the node after the
  call.
\<close>

definition prepareRSRCData_body :: "env \<Rightarrow> node \<Rightarrow> datafill list \<Rightarrow> encoded list \<Rightarrow> encoded" where
  "prepareRSRCData_body e n ss rs =
     (case cls n of
        DataFillVoid \<Rightarrow> Inr ([], DF n ss)
      | DataFillInt \<Rightarrow>
          leaf n ss (case py_int (val n) of
                       Inl x \<Rightarrow> Inl x
                     | Inr i \<Rightarrow> (case isize n of None \<Rightarrow> Inl TypeError
                                  | Some sz \<Rightarrow> int_to_bytes sz (signed n) i))
      | DataFillFloat \<Rightarrow>
          leaf n ss (if tdType n \<in> float_types then ext_prepare e (cls n) (tdType n) (val n)
                     else Inl (RuntimeError UnexpectedType))
      | DataFillComplex \<Rightarrow>
          leaf n ss (if tdType n \<in> complex_types then ext_prepare e (cls n) (tdType n) (val n)
                     else Inl (RuntimeError UnexpectedType))
      | DataFillBool \<Rightarrow>
          leaf n ss (case py_int (val n) of
                       Inl x \<Rightarrow> Inl x
                     | Inr i \<Rightarrow> (case isize n of None \<Rightarrow> Inl TypeError
                                  | Some sz \<Rightarrow> int_to_bytes sz False i))
      | DataFillString \<Rightarrow> leaf n ss (lstr_field (val n))
      | DataFillPath \<Rightarrow> leaf n ss (ext_prepare e (cls n) (tdType n) (val n))
      | DataFillCString \<Rightarrow> leaf n ss (int_field 4 False (val n))
      | DataFillArray \<Rightarrow>
          (case dims_bytes (dims n) of
             Inl x \<Rightarrow> Inl x
           | Inr pre \<Rightarrow> children_prepareRSRCData n pre rs)
      | DataFillArrayDataPtr \<Rightarrow> leaf n ss (int_field 4 False (val n))
      | DataFillCluster \<Rightarrow> children_prepareRSRCData n [] rs
      | DataFillLVVariant \<Rightarrow> leaf n ss (ext_prepare e (cls n) (tdType n) (val n))
      | DataFillMeasureData \<Rightarrow> children_prepareRSRCData n [] rs
      | DataFillComplexFixedPt \<Rightarrow> leaf n ss (DataFillComplexFixedPt_prepareRSRCData n)
      | DataFillFixedPoint \<Rightarrow> leaf n ss (fixedpt_part n (val n) (vflags n))
      | DataFillBlock \<Rightarrow> DataFillBlock_prepareRSRCData n ss
      | DataFillRepeatedBlock \<Rightarrow> children_prepareRSRCData n [] rs
      | DataFillSimpleRefnum \<Rightarrow> leaf n ss (int_field 4 False (val n))
      | DataFillIORefnum \<Rightarrow> leaf n ss (DataFillIORefnum_prepareRSRCData (file_version e) n)
      | DataFillUDRefnum \<Rightarrow> leaf n ss (int_field 4 False (val n))
      | DataFillUDTagRefnum \<Rightarrow> leaf n ss (DataFillUDTagRefnum_prepareRSRCData (file_version e) n)
      | DataFillUDClassInst \<Rightarrow> leaf n ss (DataFillUDClassInst_prepareRSRCData n)
      | DataFillPtr \<Rightarrow> leaf n ss (DataFillPtr_prepareRSRCData (file_version e) n)
      | DataFillPtrTo \<Rightarrow> leaf n ss (int_field 4 False (val n))
      | DataFillExtData \<Rightarrow> Inr ([], DF n ss)
      | DataFillUnexpected \<Rightarrow> Inr ([], DF n ss)
      | DataFillTypeDef \<Rightarrow> children_prepareRSRCData n [] rs
      | SpecialDSTMCluster \<Rightarrow> children_prepareRSRCData n [] rs)"

fun prepareRSRCData :: "env \<Rightarrow> datafill \<Rightarrow> encoded" where
  "prepareRSRCData e (DF n ss) = prepareRSRCData_body e n ss (map (\<lambda>s. prepareRSRCData e s) ss)"

section \<open>Expected size\<close>

text \<open>
  \<open>expectedRSRCSize\<close> returns a number, or \<open>None\<close> for "unknown", or raises. The composite
  classes add up their children and return \<open>None\<close> at the first child that does.
\<close>

type_synonym expected = "error + nat option"

fun sum_sizes :: "nat \<Rightarrow> expected list \<Rightarrow> expected" where
  "sum_sizes acc [] = Inr (Some acc)"
| "sum_sizes acc (r # rs) =
     (case r of
        Inl x \<Rightarrow> Inl x
      | Inr None \<Rightarrow> Inr None
      | Inr (Some k) \<Rightarrow> sum_sizes (acc + k) rs)"

definition len_plus :: "nat \<Rightarrow> pyvalue \<Rightarrow> expected" where
  "len_plus k v = (case py_len v of Inl x \<Rightarrow> Inl x | Inr l \<Rightarrow> Inr (Some (k + l)))"

text \<open>
  \<open>DataFillIORefnum.expectedRSRCSize\<close>: in the tag branch the sum is added to \<open>data_buf\<close>,
  a local name that the method never binds.
\<close>

definition DataFillIORefnum_expectedRSRCSize :: "version \<Rightarrow> node \<Rightarrow> expected" where
  "DataFillIORefnum_expectedRSRCSize ver n =
     (if isGreaterOrEqVersion ver [6, 0, 0] then
        (case td n of
           None \<Rightarrow> Inl AttributeError
         | Some t \<Rightarrow> if isRefnumTag t then Inl (UnboundLocalError ''data_buf'') else Inr (Some 4))
      else Inr (Some 4))"

text \<open>
  \<open>DataFillUDTagRefnum.expectedRSRCSize\<close> names \<open>REFNUM_TYPE\<close>, which this method does
  not import (the other methods of the class import it locally).
\<close>

definition DataFillUDTagRefnum_expectedRSRCSize :: "node \<Rightarrow> expected" where
  "DataFillUDTagRefnum_expectedRSRCSize n =
     (case py_len (val n) of
        Inl x \<Rightarrow> Inl x
      | Inr l \<Rightarrow> (case td n of None \<Rightarrow> Inl AttributeError | Some t \<Rightarrow> Inl (NameError ''REFNUM_TYPE'')))"

text \<open>
  \<open>DataFillUDClassInst.expectedRSRCSize\<close>: \<open>str_len += 1 + len(self.libName)\<close> reads the
  local \<open>str_len\<close> before anything has bound it.
\<close>

definition DataFillUDClassInst_expectedRSRCSize :: "node \<Rightarrow> expected" where
  "DataFillUDClassInst_expectedRSRCSize n = Inl (UnboundLocalError ''str_len'')"

definition float_size :: "td_full_type \<Rightarrow> nat option" where
  "float_size ty =
     (if ty \<in> {TD_NumFloat32, TD_UnitFloat32} then Some 4
      else if ty \<in> {TD_NumFloat64, TD_UnitFloat64} then Some 8
      else if ty \<in> {TD_NumFloatExt, TD_UnitFloatExt} then Some 16
      else None)"

definition complex_size :: "td_full_type \<Rightarrow> nat option" where
  "complex_size ty =
     (if ty \<in> {TD_NumComplex64, TD_UnitComplex64} then Some 8
      else if ty \<in> {TD_NumComplex128, TD_UnitComplex128} then Some 16
      else if ty \<in> {TD_NumComplexExt, TD_UnitComplexExt} then Some 32
      else None)"

definition expectedRSRCSize_body :: "env \<Rightarrow> node \<Rightarrow> expected list \<Rightarrow> expected" where
  "expectedRSRCSize_body e n rs =
     (case cls n of
        DataFillVoid \<Rightarrow> Inr (Some 0)
      | DataFillInt \<Rightarrow> Inr (isize n)
      | DataFillFloat \<Rightarrow> Inr (float_size (tdType n))
      | DataFillComplex \<Rightarrow> Inr (complex_size (tdType n))
      | DataFillBool \<Rightarrow> (case isize n of None \<Rightarrow> Inl TypeError | Some sz \<Rightarrow> Inr (Some sz))
      | DataFillString \<Rightarrow> len_plus 4 (val n)
      | DataFillPath \<Rightarrow> Inr (ext_size e (val n))
      | DataFillCString \<Rightarrow> Inr (Some 4)
      | DataFillArray \<Rightarrow> sum_sizes (4 * length (dims n)) rs
      | DataFillArrayDataPtr \<Rightarrow> Inr (Some 4)
      | DataFillCluster \<Rightarrow> sum_sizes 0 rs
      | DataFillLVVariant \<Rightarrow> Inr (ext_size e (val n))
      | DataFillMeasureData \<Rightarrow> sum_sizes 0 rs
      | DataFillComplexFixedPt \<Rightarrow>
          (case td n of
             None \<Rightarrow> Inl AttributeError
           | Some t \<Rightarrow> Inr (Some (if allocOv t then 18 else 16)))
      | DataFillFixedPoint \<Rightarrow>
          (case td n of
             None \<Rightarrow> Inl AttributeError
           | Some t \<Rightarrow> Inr (Some (if allocOv t then 9 else 8)))
      | DataFillBlock \<Rightarrow> len_plus 0 (val n)
      | DataFillRepeatedBlock \<Rightarrow> sum_sizes 0 rs
      | DataFillSimpleRefnum \<Rightarrow> Inr (Some 4)
      | DataFillIORefnum \<Rightarrow> DataFillIORefnum_expectedRSRCSize (file_version e) n
      | DataFillUDRefnum \<Rightarrow> Inr (Some 4)
      | DataFillUDTagRefnum \<Rightarrow> DataFillUDTagRefnum_expectedRSRCSize n
      | DataFillUDClassInst \<Rightarrow> DataFillUDClassInst_expectedRSRCSize n
      | DataFillPtr \<Rightarrow> Inr (Some (if isSmallerVersion (file_version e) [8, 6, 0, 1] then 4 else 0))
      | DataFillPtrTo \<Rightarrow> Inr (Some 4)
      | DataFillExtData \<Rightarrow> Inr None
      | DataFillUnexpected \<Rightarrow> Inr None
      | DataFillTypeDef \<Rightarrow> sum_sizes 0 rs
      | SpecialDSTMCluster \<Rightarrow> sum_sizes 0 rs)"

fun expectedRSRCSize :: "env \<Rightarrow> datafill \<Rightarrow> expected" where
  "expectedRSRCSize e (DF n ss) = expectedRSRCSize_body e n (map (\<lambda>s. expectedRSRCSize e s) ss)"

section \<open>Text form of a pointer\<close>

text \<open>
  \<open>str\<close> of a Python integer: the decimal digits, after a minus sign when it is negative.
\<close>

fun digits :: "nat \<Rightarrow> string" where
  "digits n = (if n < 10 then [char_of (48 + n)] else digits (n div 10) @ [char_of (48 + n mod 10)])"

declare digits.simps [simp del]

definition py_str_int :: "int \<Rightarrow> string" where
  "py_str_int i = (if i < 0 then CHR ''-'' # digits (nat (- i)) else digits (nat i))"

text \<open>
  \<open>DataFillPtr.exportXML\<close> sets the text of the element to \<open>"{}".format(self.value)\<close>, which
  is \<open>None\<close> for the absent value and the decimal form for an integer. (A pointer node
  holds nothing else; other values are not rendered here.)
\<close>

definition DataFillPtr_exportXML :: "datafill \<Rightarrow> string option" where
  "DataFillPtr_exportXML df =
     (case val (attrs df) of
        PyNone \<Rightarrow> Some ''None''
      | PyInt i \<Rightarrow> Some (py_str_int i)
      | _ \<Rightarrow> None)"

section \<open>Properties of the special cluster test\<close>

text \<open>
  C1 (as stated): with flag bit 0x0004 set and a file version below 10.0.0.2, position 1
  is the special one. The code answers the other way round: under file version 9.0.0.0
  position 1 does not qualify and position 2 does.
\<close>

theorem C1_counterexample:
  "isSmallerVersion [9, 0, 0, 0] [10, 0, 0, 2]
   \<and> \<not> isSpecialDSTMClusterElement [9, 0, 0, 0] 1 0x0004
   \<and> isSpecialDSTMClusterElement [9, 0, 0, 0] 2 0x0004"
  by (simp add: isSpecialDSTMClusterElement_def isSmallerVersion_def)

text \<open>
  C1 (amended): with flag bit 0x0004 set in tm_flags, a client position qualifies exactly
  when it is position 2 and the file version is below 10.0.0.2, or it is position 1 and the
  file version is at or above 10.0.0.2; no other position qualifies under this flag.
\<close>

theorem C1_flag4_positions:
  "flags AND 0x0004 \<noteq> 0 \<Longrightarrow>
   isSpecialDSTMClusterElement ver idx flags =
     (if isSmallerVersion ver [10, 0, 0, 2] then idx = 2 else idx = 1)"
  by (simp add: isSpecialDSTMClusterElement_def)

theorem C1_flag4_positions_witness:
  "(0x0004 :: int) AND 0x0004 \<noteq> 0
   \<and> isSpecialDSTMClusterElement [10, 0, 0, 2] 1 0x0004
   \<and> \<not> isSpecialDSTMClusterElement [10, 0, 0, 2] 2 0x0004
   \<and> isSpecialDSTMClusterElement [8, 6, 0, 1] 2 0x0004
   \<and> \<not> isSpecialDSTMClusterElement [8, 6, 0, 1] 1 0x0004"
  using C1_flag4_positions [of "0x0004" "[10, 0, 0, 2]" 1]
        C1_flag4_positions [of "0x0004" "[10, 0, 0, 2]" 2]
        C1_flag4_positions [of "0x0004" "[8, 6, 0, 1]" 2]
        C1_flag4_positions [of "0x0004" "[8, 6, 0, 1]" 1]
  by (simp add: isSmallerVersion_def)

end
